theory Spec2Isabelle
  imports Complex_Main
begin

section \<open>Object Map (SSObject.cpp)\<close>

text \<open>
  The catalog tags that the sources name. The enumeration \<open>SSCatalog\<close> itself is
  declared in SSIdentifier.hpp; every tag the sources do not name is \<open>kCatOther n\<close>.
\<close>

datatype SSCatalog =
  kCatHD | kCatGCVS | kCatGJ | kCatHIP | kCatBayer | kCatFlamsteed | kCatOther nat

text \<open>
  \<open>SSObjectMap\<close> is a \<open>std::map\<close> from identifiers to \<open>int\<close>: a partial map. The
  identifier type \<open>'id\<close> stays abstract (SSIdentifier.hpp); two keys are the same key
  when they are equal. \<open>int\<close> slots are unbounded integers here: a collection holds
  fewer than \<open>2 ^ 31\<close> elements, so \<open>i + 1\<close> never overflows (see \<open>slot_fits_int32\<close>).
\<close>

type_synonym 'id SSObjectMap = "'id \<rightharpoonup> int"

text \<open>\<open>std::map::insert\<close>: the pair is stored only when the key is not yet in the map.\<close>

definition std_map_insert :: "'id SSObjectMap \<Rightarrow> 'id \<Rightarrow> int \<Rightarrow> 'id SSObjectMap" where
  "std_map_insert m k v = (case m k of None \<Rightarrow> m(k \<mapsto> v) | Some _ \<Rightarrow> m)"

text \<open>
  \<open>std::map::operator[]\<close>: a key that is not in the map is first stored with the
  value-initialised \<open>int\<close> 0; the stored value and the map after the access are returned.
\<close>

definition std_map_subscript :: "'id SSObjectMap \<Rightarrow> 'id \<Rightarrow> int \<times> 'id SSObjectMap" where
  "std_map_subscript m k = (case m k of None \<Rightarrow> (0, m(k \<mapsto> 0)) | Some v \<Rightarrow> (v, m))"

text \<open>
  The loop of \<open>SSMakeObjectMap\<close>, from index \<open>i\<close> on: the list is \<open>objects[i..]\<close>. An
  element of the vector is a pointer, \<open>None\<close> for \<open>nullptr\<close>. \<open>getIdentifier\<close> is the
  virtual method \<open>ptr->getIdentifier (cat)\<close> and \<open>valid ident\<close> is the conversion of an
  identifier to \<open>bool\<close> (\<open>! ident\<close> is its negation); both are declared outside SSObject.cpp.
\<close>

fun SSMakeObjectMap_loop ::
  "('p \<Rightarrow> SSCatalog \<Rightarrow> 'id) \<Rightarrow> ('id \<Rightarrow> bool) \<Rightarrow> SSCatalog \<Rightarrow>
   'p option list \<Rightarrow> int \<Rightarrow> 'id SSObjectMap \<Rightarrow> 'id SSObjectMap" where
  "SSMakeObjectMap_loop getIdentifier valid cat [] i m = m"
| "SSMakeObjectMap_loop getIdentifier valid cat (obj # rest) i m =
     (case obj of
        None \<Rightarrow> SSMakeObjectMap_loop getIdentifier valid cat rest (i + 1) m
      | Some ptr \<Rightarrow>
          (let ident = getIdentifier ptr cat in
           if \<not> valid ident
           then SSMakeObjectMap_loop getIdentifier valid cat rest (i + 1) m
           else SSMakeObjectMap_loop getIdentifier valid cat rest (i + 1)
                  (std_map_insert m ident (i + 1))))"

definition SSMakeObjectMap ::
  "('p \<Rightarrow> SSCatalog \<Rightarrow> 'id) \<Rightarrow> ('id \<Rightarrow> bool) \<Rightarrow> 'p option list \<Rightarrow> SSCatalog \<Rightarrow>
   'id SSObjectMap" where
  "SSMakeObjectMap getIdentifier valid objects cat =
     SSMakeObjectMap_loop getIdentifier valid cat objects 0 Map.empty"

text \<open>
  What can go wrong in the functions modelled here. \<open>OutOfRange\<close> is the access
  \<open>objects[k - 1]\<close> beyond the end of a vector and \<open>InvalidPointer\<close> the use of a pointer
  to no live object, both undefined behaviour in the source; \<open>std_out_of_range\<close> is the
  exception that \<open>std::string::substr\<close> throws.
\<close>

datatype error = OutOfRange | InvalidPointer | std_out_of_range

text \<open>
  \<open>SSIdentifierToObject\<close> returns the pointer found and, since the map is passed by
  reference to \<open>operator[]\<close>, the map after the call.
\<close>

definition SSIdentifierToObject ::
  "'id \<Rightarrow> 'id SSObjectMap \<Rightarrow> 'p option list \<Rightarrow> (error + 'p option) \<times> 'id SSObjectMap" where
  "SSIdentifierToObject ident m objects =
     (let (k, m') = std_map_subscript m ident in
      if k > 0
      then (if nat (k - 1) < length objects then Inr (objects ! nat (k - 1))
            else Inl OutOfRange, m')
      else (Inr None, m'))"

text \<open>
  The remaining operations of an import run on a built map are lookups:
  \<open>lookups idents m objects\<close> is the map after \<open>SSIdentifierToObject\<close> was called
  for each identifier of \<open>idents\<close> in turn.
\<close>

fun lookups :: "'id list \<Rightarrow> 'id SSObjectMap \<Rightarrow> 'p option list \<Rightarrow> 'id SSObjectMap" where
  "lookups [] m objects = m"
| "lookups (ident # idents) m objects =
     lookups idents (snd (SSIdentifierToObject ident m objects)) objects"

text \<open>
  A small reference collection for the concrete checks: two records, named by a
  string, that carry the same identifier 1001 under the tag GJ and none under any other
  tag; the identifier 0 is the invalid one.
\<close>

definition demo_getIdentifier :: "string \<Rightarrow> SSCatalog \<Rightarrow> nat" where
  "demo_getIdentifier r cat = (if cat = kCatGJ then 1001 else 0)"

definition demo_valid :: "nat \<Rightarrow> bool" where
  "demo_valid ident = (ident \<noteq> 0)"

definition demo_objects :: "string option list" where
  "demo_objects = [Some ''R1'', Some ''R2'']"

section \<open>The angle parser (SSUtilities.cpp)\<close>

text \<open>
  The three numbers that \<open>strtodeg\<close> reads and its result are real numbers here: what is
  modelled is which groups are read, the defaults and the sign, not the rounding of
  \<open>double\<close> arithmetic.
\<close>

text \<open>\<open>str.c_str()\<close> as the C library reads it: the characters before the first NUL.\<close>

definition c_str :: "string \<Rightarrow> string" where
  "c_str str = takeWhile (\<lambda>c. c \<noteq> CHR 0x00) str"

text \<open>\<open>isspace\<close> in the C locale: space, \<open>\t\<close>, \<open>\n\<close>, \<open>\v\<close>, \<open>\f\<close>, \<open>\r\<close>.\<close>

definition isspace :: "char \<Rightarrow> bool" where
  "isspace c = (c \<in> set [CHR '' '', CHR 0x09, CHR 0x0A, CHR 0x0B, CHR 0x0C, CHR 0x0D])"

text \<open>
  \<open>sscanf (cstr, "%lf %lf %lf", &deg, &min, &sec)\<close>. Each \<open>%lf\<close> skips white space and
  converts the longest prefix of what is left that has the form of a floating-point
  number; \<open>scan_lf\<close> is that conversion of the C library, giving the number and the
  unread rest, or \<open>None\<close> when no number starts there. The first conversion that fails
  ends the call and leaves its variable and the later ones as they were. The result is
  the number of variables assigned and the three variables (\<open>minute\<close> is \<open>min\<close>).
\<close>

definition sscanf_lf3 ::
  "(string \<Rightarrow> (real \<times> string) option) \<Rightarrow> string \<Rightarrow> real \<times> real \<times> real \<Rightarrow>
   nat \<times> real \<times> real \<times> real" where
  "sscanf_lf3 scan_lf cstr vars =
     (case vars of (deg, minute, sec) \<Rightarrow>
        (case scan_lf (dropWhile isspace cstr) of
           None \<Rightarrow> (0, deg, minute, sec)
         | Some (d, rest1) \<Rightarrow>
             (case scan_lf (dropWhile isspace rest1) of
                None \<Rightarrow> (1, d, minute, sec)
              | Some (m, rest2) \<Rightarrow>
                  (case scan_lf (dropWhile isspace rest2) of
                     None \<Rightarrow> (2, d, m, sec)
                   | Some (s, rest3) \<Rightarrow> (3, d, m, s)))))"

definition strtodeg :: "(string \<Rightarrow> (real \<times> string) option) \<Rightarrow> string \<Rightarrow> real" where
  "strtodeg scan_lf str =
     (let cstr = c_str str;
          (n, deg, minute, sec) = sscanf_lf3 scan_lf cstr (0, 0, 0);
          deg = \<bar>deg\<bar> + minute / 60 + sec / 3600
      in if take 1 cstr = ''-'' then - deg else deg)"

text \<open>
  A conversion for the concrete checks: a decimal integer with an optional sign, the
  part of the \<open>%lf\<close> syntax that the examples use.
\<close>

definition demo_digit :: "char \<Rightarrow> bool" where
  "demo_digit c = (c \<in> set ''0123456789'')"

definition demo_scan_lf :: "string \<Rightarrow> (real \<times> string) option" where
  "demo_scan_lf s =
     (let (negative, body) =
            (case s of
               [] \<Rightarrow> (False, s)
             | c # t \<Rightarrow> if c = CHR ''-'' then (True, t)
                        else if c = CHR ''+'' then (False, t) else (False, s));
          digits = takeWhile demo_digit body;
          magnitude = foldl (\<lambda>a c. 10 * a + (of_char c - 48)) (0::nat) digits
      in if digits = [] then None
         else Some (if negative then - real magnitude else real magnitude,
                    dropWhile demo_digit body))"

section \<open>Stars, the heap and the GJ importers (SSImportGJ.cpp)\<close>

subsection \<open>Values and identifiers\<close>

text \<open>
  A stored \<open>double\<close> or \<open>float\<close> field: a finite number, or one of the special values.
  \<open>INFINITY\<close> is \<open>PosInf\<close>, the mark of a quantity that is not known. The importers
  only copy these fields and test them with \<open>isinf\<close>.
\<close>

datatype double = Finite real | PosInf | NegInf | NaN

definition isinf :: "double \<Rightarrow> bool" where
  "isinf d = (d = PosInf \<or> d = NegInf)"

record SSSpherical =
  lon :: double
  lat :: double
  rad :: double

text \<open>
  Modelled from the spec: class \<open>SSStar\<close> (SSStar.hpp and SSStar.cpp are not among the
  sources). A stellar entry holds its names, its identifiers, position and motion,
  V and B magnitude and a spectral type; a setter stores its argument and the getter
  of the same field returns it.
\<close>

record 'id SSStar =
  star_names :: "string list"
  star_idents :: "'id list"
  star_coords :: SSSpherical
  star_motion :: SSSpherical
  star_Vmag :: double
  star_Bmag :: double
  star_spectrum :: string

text \<open>
  What the importers call and the sources do not define. The first six fields are the
  interface of class \<open>SSIdentifier\<close>: the default-constructed identifier, the
  conversion to \<open>bool\<close>, \<open>catalog ()\<close>, \<open>fromString\<close>, the constructor from a catalog and
  a number, and the order \<open>compareSSIdentifiers\<close>. \<open>strtoint\<close> is \<open>atoi\<close>.
  \<open>CNS3_values\<close> stands for the floating-point part of a CNS3 line (lines 140 to 183
  of SSImportGJ.cpp): from the strings RA, Dec, PM, PA, RV, Vmag, B-V and Plx to the
  precessed position and motion and the two magnitudes. \<open>AC_values\<close> (lines 357 to
  370) gives \<open>ra\<close>, \<open>dec\<close>, \<open>pmRA\<close>, \<open>pmDec\<close> from the strings RA, Dec, PMRA, PMDec, and
  \<open>HIP_distance\<close> is \<open>kLYPerParsec / getParallax ()\<close> of a Hipparcos star.
\<close>

record 'id externals =
  ident_null :: "'id"
  ident_valid :: "'id \<Rightarrow> bool"
  ident_catalog :: "'id \<Rightarrow> SSCatalog"
  ident_fromString :: "string \<Rightarrow> 'id"
  ident_fromCatalog :: "SSCatalog \<Rightarrow> int \<Rightarrow> 'id"
  compareSSIdentifiers :: "'id \<Rightarrow> 'id \<Rightarrow> bool"
  strtoint :: "string \<Rightarrow> int"
  CNS3_values :: "string list \<Rightarrow> SSSpherical \<times> SSSpherical \<times> double \<times> double"
  AC_values :: "string list \<Rightarrow> double \<times> double \<times> double \<times> double"
  HIP_distance :: "'id SSStar \<Rightarrow> double"

text \<open>
  Modelled from the spec: \<open>SSAddIdentifier\<close> (SSIdentifier.cpp is not among the
  sources), the "add if not already present" operation; an invalid identifier is never
  inserted.
\<close>

definition SSAddIdentifier :: "'id externals \<Rightarrow> 'id \<Rightarrow> 'id list \<Rightarrow> 'id list" where
  "SSAddIdentifier ext ident ids =
     (if ident_valid ext ident \<and> ident \<notin> set ids then ids @ [ident] else ids)"

text \<open>
  \<open>std::sort\<close> with a comparison function, as insertion sort: the result is a
  permutation of the input whatever the comparison is. \<open>std::sort\<close> leaves the order of
  elements that compare equal open; here they keep the order they had, as they do in
  the insertion sort that the library runs on short vectors.
\<close>

fun insert_sorted :: "('a \<Rightarrow> 'a \<Rightarrow> bool) \<Rightarrow> 'a \<Rightarrow> 'a list \<Rightarrow> 'a list" where
  "insert_sorted cmp x [] = [x]"
| "insert_sorted cmp x (y # ys) =
     (if cmp y x then y # insert_sorted cmp x ys else x # y # ys)"

definition std_sort :: "('a \<Rightarrow> 'a \<Rightarrow> bool) \<Rightarrow> 'a list \<Rightarrow> 'a list" where
  "std_sort cmp xs = foldr (insert_sorted cmp) xs []"

text \<open>
  Modelled from the spec: the methods of \<open>SSStar\<close> that the importers call.
  \<open>getIdentifier (cat)\<close> extracts the entry's identifier under the catalog tag, the
  null identifier when it has none.
\<close>

definition star_getIdentifier :: "'id externals \<Rightarrow> 'id SSStar \<Rightarrow> SSCatalog \<Rightarrow> 'id" where
  "star_getIdentifier ext star cat =
     (case filter (\<lambda>ident. ident_catalog ext ident = cat) (star_idents star) of
        [] \<Rightarrow> ident_null ext
      | ident # _ \<Rightarrow> ident)"

definition addIdentifier :: "'id externals \<Rightarrow> 'id \<Rightarrow> 'id SSStar \<Rightarrow> 'id SSStar" where
  "addIdentifier ext ident star = star\<lparr>star_idents := SSAddIdentifier ext ident (star_idents star)\<rparr>"

definition sortIdentifiers :: "'id externals \<Rightarrow> 'id SSStar \<Rightarrow> 'id SSStar" where
  "sortIdentifiers ext star =
     star\<lparr>star_idents := std_sort (compareSSIdentifiers ext) (star_idents star)\<rparr>"

text \<open>
  Modelled from the spec: \<open>SSIdentifiersToNames\<close> (not among the sources). The name
  table is a list of rows in table iteration order; the result holds every name whose
  identifier is in the set, in the order of the table.
\<close>

definition SSIdentifiersToNames :: "'id list \<Rightarrow> ('id \<times> string) list \<Rightarrow> string list" where
  "SSIdentifiersToNames ids nameMap = map snd (filter (\<lambda>row. fst row \<in> set ids) nameMap)"

subsection \<open>Objects, pointers and the heap\<close>

text \<open>
  An object is a star or an object of another class. \<open>SSObject_getIdentifier\<close> is the
  virtual method \<open>getIdentifier\<close>: for an object that is not a star it is the one of
  \<open>SSObject\<close> (SSObject.cpp), which returns \<open>SSIdentifier ()\<close>. For such an object
  \<open>SSGetStarPtr\<close> gives \<open>nullptr\<close>.
\<close>

datatype 'id SSObject = Star "'id SSStar" | NonStar

definition SSObject_getIdentifier :: "'id externals \<Rightarrow> 'id SSObject \<Rightarrow> SSCatalog \<Rightarrow> 'id" where
  "SSObject_getIdentifier ext obj cat =
     (case obj of Star star \<Rightarrow> star_getIdentifier ext star cat | NonStar \<Rightarrow> ident_null ext)"

text \<open>
  The heap is the list of the objects allocated so far; the address of an object is its
  position, \<open>new\<close> appends, and nothing is freed. A pointer is \<open>Some\<close> address, or \<open>None\<close>
  for \<open>nullptr\<close>; an \<open>SSObjectVec\<close> is a list of pointers. \<open>live h vec\<close> says that every
  pointer of the vector points into the heap.
\<close>

type_synonym 'id heap = "'id SSObject list"

type_synonym SSObjectVec = "nat option list"

definition live :: "'id heap \<Rightarrow> SSObjectVec \<Rightarrow> bool" where
  "live h vec = list_all (\<lambda>ptr. case ptr of None \<Rightarrow> True | Some p \<Rightarrow> p < length h) vec"

definition SSGetStarPtr :: "'id heap \<Rightarrow> nat option \<Rightarrow> nat option" where
  "SSGetStarPtr h ptr =
     (case ptr of
        None \<Rightarrow> None
      | Some p \<Rightarrow> (case h ! p of Star star \<Rightarrow> Some p | NonStar \<Rightarrow> None))"

text \<open>The star behind a pointer that \<open>SSGetStarPtr\<close> returned.\<close>

definition star_at :: "'id heap \<Rightarrow> nat \<Rightarrow> 'id SSStar" where
  "star_at h p = (case h ! p of Star star \<Rightarrow> star)"

text \<open>
  Modelled from the spec: the star that \<open>SSNewObject (kTypeStar)\<close> constructs, with no
  names (the constructor of \<open>SSObject\<close>), no identifiers and every quantity unknown.
\<close>

definition unknown_position :: SSSpherical where
  "unknown_position = \<lparr>lon = PosInf, lat = PosInf, rad = PosInf\<rparr>"

definition new_star :: "'id SSStar" where
  "new_star = \<lparr>star_names = [], star_idents = [], star_coords = unknown_position,
                star_motion = unknown_position, star_Vmag = PosInf, star_Bmag = PosInf,
                star_spectrum = []\<rparr>"

subsection \<open>The component expander\<close>

text \<open>
  \<open>addGJStar\<close>: \<open>new SSStar (*pStar)\<close> copies the star into a new object at the next
  address; the GJ identifier is added to the copy, its identifiers are sorted and the
  pointer is appended to \<open>stars\<close>. The state is the heap and the vector \<open>stars\<close>;
  \<open>pStar\<close> is the address of the star to copy (no caller passes \<open>nullptr\<close>).
\<close>

definition addGJStar ::
  "'id externals \<Rightarrow> nat \<Rightarrow> string \<Rightarrow> string \<Rightarrow> 'id heap \<times> SSObjectVec \<Rightarrow>
   error + 'id heap \<times> SSObjectVec" where
  "addGJStar ext pStar strGJ strC st =
     (case st of (h, stars) \<Rightarrow>
        if \<not> pStar < length h then Inl InvalidPointer
        else (case h ! pStar of
                NonStar \<Rightarrow> Inl InvalidPointer
              | Star star \<Rightarrow>
                  (let pNewStar = length h;
                       identGJ = ident_fromString ext (''GJ '' @ strGJ @ strC);
                       newStar = sortIdentifiers ext (addIdentifier ext identGJ star)
                   in Inr (h @ [Star newStar], stars @ [Some pNewStar]))))"

text \<open>The loop \<open>for (char c : comps)\<close> of \<open>addGJComponentStars\<close>.\<close>

fun addGJStar_each ::
  "'id externals \<Rightarrow> nat \<Rightarrow> string \<Rightarrow> string \<Rightarrow> 'id heap \<times> SSObjectVec \<Rightarrow>
   error + 'id heap \<times> SSObjectVec" where
  "addGJStar_each ext pStar strGJ [] st = Inr st"
| "addGJStar_each ext pStar strGJ (c # cs) st =
     (case addGJStar ext pStar strGJ [c] st of
        Inl e \<Rightarrow> Inl e
      | Inr st' \<Rightarrow> addGJStar_each ext pStar strGJ cs st')"

definition addGJComponentStars ::
  "'id externals \<Rightarrow> nat \<Rightarrow> string \<Rightarrow> string \<Rightarrow> 'id heap \<times> SSObjectVec \<Rightarrow>
   error + int \<times> 'id heap \<times> SSObjectVec" where
  "addGJComponentStars ext pStar strGJ comps st =
     (if length comps < 2
      then (case addGJStar ext pStar strGJ comps st of
              Inl e \<Rightarrow> Inl e
            | Inr st' \<Rightarrow> Inr (1, st'))
      else (case addGJStar_each ext pStar strGJ comps st of
              Inl e \<Rightarrow> Inl e
            | Inr st' \<Rightarrow> Inr (int (length comps), st')))"

subsection \<open>Strings (SSUtilities.cpp and std::string)\<close>

text \<open>\<open>string::npos\<close>, the largest \<open>size_t\<close>.\<close>

definition npos :: nat where
  "npos = 2 ^ 64 - 1"

text \<open>
  \<open>str.substr (pos, n)\<close> for \<open>pos \<le> str.length ()\<close>: at most \<open>n\<close> characters from \<open>pos\<close>
  on. The importers call it on a line only at positions below a length they have
  checked; the one call that can start beyond the end of its string throws, and is
  written out where it stands (\<open>SSImportGJAC_components\<close>).
\<close>

definition substr :: "string \<Rightarrow> nat \<Rightarrow> nat \<Rightarrow> string" where
  "substr str pos n = take n (drop pos str)"

text \<open>
  \<open>find_first_not_of\<close>, \<open>find_last_not_of\<close> and \<open>find_first_of\<close>: the position found, or
  \<open>None\<close> for \<open>npos\<close>.
\<close>

fun find_first_not_of :: "string \<Rightarrow> string \<Rightarrow> nat option" where
  "find_first_not_of [] chars = None"
| "find_first_not_of (c # str) chars =
     (if c \<in> set chars then map_option Suc (find_first_not_of str chars) else Some 0)"

definition find_last_not_of :: "string \<Rightarrow> string \<Rightarrow> nat option" where
  "find_last_not_of str chars =
     (case find_first_not_of (rev str) chars of
        None \<Rightarrow> None
      | Some i \<Rightarrow> Some (length str - 1 - i))"

fun find_first_of :: "string \<Rightarrow> string \<Rightarrow> nat option" where
  "find_first_of [] chars = None"
| "find_first_of (c # str) chars =
     (if c \<in> set chars then Some 0 else map_option Suc (find_first_of str chars))"

text \<open>
  \<open>trim\<close>. The characters trimmed are space, \<open>\t\<close>, \<open>\r\<close> and \<open>\n\<close>. A string with a first
  character outside this set has a last one, so the inner \<open>None\<close> is never reached.
\<close>

definition trim :: "string \<Rightarrow> string" where
  "trim str =
     (let start = find_first_not_of str [CHR '' '', CHR 0x09, CHR 0x0D, CHR 0x0A];
          finish = find_last_not_of str [CHR '' '', CHR 0x09, CHR 0x0D, CHR 0x0A]
      in case start of
           None \<Rightarrow> []
         | Some s \<Rightarrow> (case finish of None \<Rightarrow> [] | Some e \<Rightarrow> substr str s ((e - s) + 1)))"

subsection \<open>SSImportGJCNS3\<close>

text \<open>
  One turn of the loop that reads the file: the count that the line adds to \<open>numStars\<close>
  and the state after it. A line that is skipped adds 0. \<open>SSNewObject (kTypeStar)\<close>
  allocates the provisional star, which the setters fill; \<open>SSGetStarPtr\<close> of that new
  star is never \<open>nullptr\<close>.
\<close>

definition SSImportGJCNS3_line ::
  "'id externals \<Rightarrow> string \<Rightarrow> 'id heap \<times> SSObjectVec \<Rightarrow>
   error + int \<times> 'id heap \<times> SSObjectVec" where
  "SSImportGJCNS3_line ext line st =
     (let len = length line in
      if len < 119 then Inr (0, st)
      else
        (let strGJ = trim (substr line 2 6);
             comps = trim (substr line 8 2);
             strHD = (if len < 153 then [] else trim (substr line 146 6));
             strDM = (if len < 165 then [] else trim (substr line 153 12));
             strRA = trim (substr line 12 8);
             strDec = trim (substr line 21 8)
         in if strRA = [] \<or> strDec = [] then Inr (0, st)
            else
              (let strPM = trim (substr line 30 6);
                   strPA = trim (substr line 37 5);
                   strRV = trim (substr line 43 6);
                   strSpec = trim (substr line 54 12);
                   strVmag = trim (substr line 67 6);
                   strBmV = trim (substr line 76 5);
                   strPlx = trim (substr line 108 6);
                   (coords, motion, vmag, bmag) =
                      CNS3_values ext [strRA, strDec, strPM, strPA, strRV, strVmag, strBmV, strPlx];
                   idents = [];
                   idents = (if strHD \<noteq> []
                             then SSAddIdentifier ext
                                    (ident_fromCatalog ext kCatHD (strtoint ext strHD)) idents
                             else idents);
                   idents = (if strDM \<noteq> []
                             then SSAddIdentifier ext (ident_fromString ext strDM) idents
                             else idents);
                   idents = (if len > 189
                             then (let strName = trim (substr line 188 npos);
                                       strName = (if take 2 strName = ''MU'' \<or> take 2 strName = ''NU''
                                                  then [] else strName);
                                       ident = ident_fromString ext strName
                                   in if ident_catalog ext ident = kCatGCVS
                                      then SSAddIdentifier ext ident idents else idents)
                             else idents);
                   (h, stars) = st;
                   pStar = length h;
                   star = new_star\<lparr>star_idents := idents, star_coords := coords,
                            star_motion := motion, star_Vmag := vmag, star_Bmag := bmag,
                            star_spectrum := strSpec\<rparr>
               in addGJComponentStars ext pStar strGJ comps (h @ [Star star], stars))))"

text \<open>The loop \<open>while (getline (file, line))\<close>, with the running count \<open>numStars\<close>.\<close>

fun SSImportGJCNS3_lines ::
  "'id externals \<Rightarrow> string list \<Rightarrow> int \<Rightarrow> 'id heap \<times> SSObjectVec \<Rightarrow>
   error + int \<times> 'id heap \<times> SSObjectVec" where
  "SSImportGJCNS3_lines ext [] numStars st = Inr (numStars, st)"
| "SSImportGJCNS3_lines ext (line # rest) numStars st =
     (case SSImportGJCNS3_line ext line st of
        Inl e \<Rightarrow> Inl e
      | Inr (n, st') \<Rightarrow> SSImportGJCNS3_lines ext rest (numStars + n) st')"

text \<open>
  The body of the second loop, for an element of \<open>stars\<close> that is a star: the
  cross-match against \<open>gjACStars\<close>, the merge when it succeeds, and the names. The
  state is the heap and the object map, which the lookup may change. All that is read
  from \<open>pACStar\<close> is read before \<open>pStar\<close> is written.
\<close>

definition SSImportGJCNS3_crossmatch_star ::
  "'id externals \<Rightarrow> ('id \<times> string) list \<Rightarrow> SSObjectVec \<Rightarrow> nat \<Rightarrow>
   'id heap \<times> 'id SSObjectMap \<Rightarrow> error + 'id heap \<times> 'id SSObjectMap" where
  "SSImportGJCNS3_crossmatch_star ext nameMap gjACStars pStar st =
     (case st of (h, m) \<Rightarrow>
        (let idents = [];
             identGJ = star_getIdentifier ext (star_at h pStar) kCatGJ;
             (found, m) = SSIdentifierToObject identGJ m gjACStars
         in case found of
              Inl e \<Rightarrow> Inl e
            | Inr ptr \<Rightarrow>
                (let (h, idents) =
                       (case SSGetStarPtr h ptr of
                          None \<Rightarrow> (h, idents)
                        | Some pACStar \<Rightarrow>
                            (let coords = star_coords (star_at h pStar);
                                 motion = star_motion (star_at h pStar);
                                 accCoords = star_coords (star_at h pACStar);
                                 accMotion = star_motion (star_at h pACStar);
                                 coords = coords\<lparr>lon := lon accCoords\<rparr>;
                                 coords = coords\<lparr>lat := lat accCoords\<rparr>;
                                 coords = coords\<lparr>rad := (if isinf (rad accCoords) then rad coords
                                                          else rad accCoords)\<rparr>;
                                 motion = motion\<lparr>lon := lon accMotion\<rparr>;
                                 motion = motion\<lparr>lat := lat accMotion\<rparr>;
                                 motion = motion\<lparr>rad := (if isinf (rad accMotion) then rad motion
                                                          else rad accMotion)\<rparr>;
                                 idents = star_idents (star_at h pStar);
                                 idents = SSAddIdentifier ext
                                            (star_getIdentifier ext (star_at h pACStar) kCatHIP) idents;
                                 idents = SSAddIdentifier ext
                                            (star_getIdentifier ext (star_at h pACStar) kCatBayer) idents;
                                 idents = SSAddIdentifier ext
                                            (star_getIdentifier ext (star_at h pACStar) kCatFlamsteed) idents;
                                 idents = SSAddIdentifier ext
                                            (star_getIdentifier ext (star_at h pACStar) kCatGCVS) idents;
                                 idents = std_sort (compareSSIdentifiers ext) idents
                             in (h[pStar := Star ((star_at h pStar)
                                    \<lparr>star_idents := idents, star_coords := coords,
                                     star_motion := motion\<rparr>)],
                                 idents)));
                     names = SSIdentifiersToNames idents nameMap
                 in if length names > 0
                    then Inr (h[pStar := Star ((star_at h pStar)\<lparr>star_names := names\<rparr>)], m)
                    else Inr (h, m))))"

text \<open>The second loop, \<open>for (int i = 0; i < stars.size (); i++)\<close>, over the elements of \<open>stars\<close>.\<close>

fun SSImportGJCNS3_crossmatch ::
  "'id externals \<Rightarrow> ('id \<times> string) list \<Rightarrow> SSObjectVec \<Rightarrow> SSObjectVec \<Rightarrow>
   'id heap \<times> 'id SSObjectMap \<Rightarrow> error + 'id heap \<times> 'id SSObjectMap" where
  "SSImportGJCNS3_crossmatch ext nameMap gjACStars [] st = Inr st"
| "SSImportGJCNS3_crossmatch ext nameMap gjACStars (ptr # rest) st =
     (case SSGetStarPtr (fst st) ptr of
        None \<Rightarrow> SSImportGJCNS3_crossmatch ext nameMap gjACStars rest st
      | Some pStar \<Rightarrow>
          (case SSImportGJCNS3_crossmatch_star ext nameMap gjACStars pStar st of
             Inl e \<Rightarrow> Inl e
           | Inr st' \<Rightarrow> SSImportGJCNS3_crossmatch ext nameMap gjACStars rest st'))"

text \<open>
  \<open>SSImportGJCNS3\<close>. \<open>file\<close> is what opening \<open>filename\<close> gives: \<open>None\<close> when the file
  cannot be opened, else its lines. The result is the count returned and the heap and
  the vector \<open>stars\<close> after the call; \<open>gjACStars\<close> and \<open>stars\<close> are different vectors.
  Every pointer of the two vectors has to point into the heap.
\<close>

definition SSImportGJCNS3 ::
  "'id externals \<Rightarrow> string list option \<Rightarrow> ('id \<times> string) list \<Rightarrow> SSObjectVec \<Rightarrow>
   'id heap \<times> SSObjectVec \<Rightarrow> error + int \<times> 'id heap \<times> SSObjectVec" where
  "SSImportGJCNS3 ext file nameMap gjACStars st =
     (case file of
        None \<Rightarrow> Inr (0, st)
      | Some lines \<Rightarrow>
          if \<not> (live (fst st) (snd st) \<and> live (fst st) gjACStars) then Inl InvalidPointer
          else
            (case SSImportGJCNS3_lines ext lines 0 st of
               Inl e \<Rightarrow> Inl e
             | Inr (numStars, h, stars) \<Rightarrow>
                 (let m = SSMakeObjectMap (\<lambda>p. SSObject_getIdentifier ext (h ! p))
                            (ident_valid ext) gjACStars kCatGJ
                  in case SSImportGJCNS3_crossmatch ext nameMap gjACStars stars (h, m) of
                       Inl e \<Rightarrow> Inl e
                     | Inr (h, m) \<Rightarrow> Inr (numStars, h, stars))))"

subsection \<open>SSImportGJAC\<close>

text \<open>
  The components of a GJ identifier and the identifier without them (lines 328 to 338).
  \<open>pos1 - 1\<close> and \<open>pos2 - pos1\<close> are computed in \<open>size_t\<close>: for \<open>pos1 = 0\<close> the start
  \<open>pos1 - 1\<close> is \<open>npos\<close>, beyond the end of the string, and \<open>substr\<close> throws
  \<open>std::out_of_range\<close>.
\<close>

definition SSImportGJAC_components :: "string \<Rightarrow> error + string \<times> string" where
  "SSImportGJAC_components strGJ =
     (case find_first_of strGJ ''ABCD'' of
        None \<Rightarrow> Inr (strGJ, [])
      | Some pos1 \<Rightarrow>
          if pos1 = 0 then Inl std_out_of_range
          else
            (let pos2 = find_first_of strGJ ''/'';
                 n = (case pos2 of None \<Rightarrow> npos | Some p2 \<Rightarrow> (2 ^ 64 + p2 - pos1) mod 2 ^ 64);
                 comps = trim (substr strGJ (pos1 - 1) n)
             in Inr (take pos1 strGJ, comps)))"

text \<open>
  One turn of the loop that reads the file; the state also holds the object map of the
  Hipparcos stars, which the lookup may change.
\<close>

definition SSImportGJAC_line ::
  "'id externals \<Rightarrow> SSObjectVec \<Rightarrow> string \<Rightarrow> 'id heap \<times> SSObjectVec \<times> 'id SSObjectMap \<Rightarrow>
   error + int \<times> 'id heap \<times> SSObjectVec \<times> 'id SSObjectMap" where
  "SSImportGJAC_line ext hipStars line st =
     (if length line < 124 then Inr (0, st)
      else
        (case SSImportGJAC_components (trim (substr line 2 20)) of
           Inl e \<Rightarrow> Inl e
         | Inr (strGJ, comps) \<Rightarrow>
             (let strHIP = trim (substr line 22 13);
                  strRA = trim (substr line 36 11);
                  strDec = trim (substr line 48 11)
              in if strRA = [] \<or> strDec = [] then Inr (0, st)
                 else
                   (let strPMRA = trim (substr line 61 6);
                        strPMDec = trim (substr line 69 6);
                        (ra, dec, pmRA, pmDec) = AC_values ext [strRA, strDec, strPMRA, strPMDec];
                        coords = \<lparr>lon = ra, lat = dec, rad = PosInf\<rparr>;
                        motion = \<lparr>lon = pmRA, lat = pmDec, rad = PosInf\<rparr>;
                        vmag = PosInf;
                        bmag = PosInf;
                        idents = [];
                        names = [];
                        hipID = ident_fromString ext strHIP;
                        idents = (if ident_valid ext hipID then SSAddIdentifier ext hipID idents
                                  else idents);
                        (h, stars, m) = st;
                        (found, m) = SSIdentifierToObject hipID m hipStars
                    in case found of
                         Inl e \<Rightarrow> Inl e
                       | Inr ptr \<Rightarrow>
                           (let (coords, motion, vmag, bmag, idents) =
                                  (case SSGetStarPtr h ptr of
                                     None \<Rightarrow> (coords, motion, vmag, bmag, idents)
                                   | Some pHIPStar \<Rightarrow>
                                       (let hip = star_at h pHIPStar;
                                            coords = coords\<lparr>rad := HIP_distance ext hip\<rparr>;
                                            motion = motion\<lparr>rad := rad (star_motion hip)\<rparr>;
                                            vmag = star_Vmag hip;
                                            bmag = star_Bmag hip;
                                            idents = SSAddIdentifier ext
                                                       (star_getIdentifier ext hip kCatBayer) idents;
                                            idents = SSAddIdentifier ext
                                                       (star_getIdentifier ext hip kCatFlamsteed) idents;
                                            idents = SSAddIdentifier ext
                                                       (star_getIdentifier ext hip kCatGCVS) idents
                                        in (coords, motion, vmag, bmag, idents)));
                                pStar = length h;
                                star = new_star\<lparr>star_names := names, star_idents := idents,
                                         star_coords := coords, star_motion := motion,
                                         star_Vmag := vmag, star_Bmag := bmag\<rparr>
                            in case addGJComponentStars ext pStar strGJ comps
                                      (h @ [Star star], stars) of
                                 Inl e \<Rightarrow> Inl e
                               | Inr (n, h, stars) \<Rightarrow> Inr (n, h, stars, m))))))"

fun SSImportGJAC_lines ::
  "'id externals \<Rightarrow> SSObjectVec \<Rightarrow> string list \<Rightarrow> int \<Rightarrow>
   'id heap \<times> SSObjectVec \<times> 'id SSObjectMap \<Rightarrow>
   error + int \<times> 'id heap \<times> SSObjectVec \<times> 'id SSObjectMap" where
  "SSImportGJAC_lines ext hipStars [] numStars st = Inr (numStars, st)"
| "SSImportGJAC_lines ext hipStars (line # rest) numStars st =
     (case SSImportGJAC_line ext hipStars line st of
        Inl e \<Rightarrow> Inl e
      | Inr (n, st') \<Rightarrow> SSImportGJAC_lines ext hipStars rest (numStars + n) st')"

text \<open>\<open>SSImportGJAC\<close>, with the file and the result as for \<open>SSImportGJCNS3\<close>.\<close>

definition SSImportGJAC ::
  "'id externals \<Rightarrow> string list option \<Rightarrow> SSObjectVec \<Rightarrow> 'id heap \<times> SSObjectVec \<Rightarrow>
   error + int \<times> 'id heap \<times> SSObjectVec" where
  "SSImportGJAC ext file hipStars st =
     (case file of
        None \<Rightarrow> Inr (0, st)
      | Some lines \<Rightarrow>
          if \<not> (live (fst st) (snd st) \<and> live (fst st) hipStars) then Inl InvalidPointer
          else
            (let m = SSMakeObjectMap (\<lambda>p. SSObject_getIdentifier ext (fst st ! p))
                       (ident_valid ext) hipStars kCatHIP
             in case SSImportGJAC_lines ext hipStars lines 0 (fst st, snd st, m) of
                  Inl e \<Rightarrow> Inl e
                | Inr (numStars, h, stars, m) \<Rightarrow> Inr (numStars, h, stars)))"

subsection \<open>A concrete instance for the checks\<close>

text \<open>
  Identifiers for the concrete checks: a catalog tag and a designation. The null
  identifier has the tag \<open>kCatOther 0\<close> and an empty designation and is the only
  invalid one; \<open>demo_fromString\<close> reads the prefixes \<open>GJ\<close>, \<open>HIP\<close> and \<open>HD\<close>; identifiers
  are ordered by their tag. The numeric parts give fixed values.
\<close>

definition demo_fromString :: "string \<Rightarrow> SSCatalog \<times> string" where
  "demo_fromString s =
     (if take 3 s = ''GJ '' \<and> drop 3 s \<noteq> [] then (kCatGJ, drop 3 s)
      else if take 4 s = ''HIP '' \<and> drop 4 s \<noteq> [] then (kCatHIP, drop 4 s)
      else if take 3 s = ''HD '' \<and> drop 3 s \<noteq> [] then (kCatHD, drop 3 s)
      else (kCatOther 0, []))"

definition demo_rank :: "SSCatalog \<Rightarrow> nat" where
  "demo_rank cat =
     (case cat of
        kCatBayer \<Rightarrow> 1 | kCatFlamsteed \<Rightarrow> 2 | kCatGCVS \<Rightarrow> 3 | kCatHD \<Rightarrow> 4
      | kCatHIP \<Rightarrow> 5 | kCatGJ \<Rightarrow> 6 | kCatOther n \<Rightarrow> 7 + n)"

fun demo_decimal :: "nat \<Rightarrow> string" where
  "demo_decimal n =
     (if n < 10 then [char_of (48 + n)]
      else demo_decimal (n div 10) @ [char_of (48 + n mod 10)])"

declare demo_decimal.simps [simp del]

definition demo_atoi :: "string \<Rightarrow> int" where
  "demo_atoi str =
     int (foldl (\<lambda>a c. 10 * a + (of_char c - 48)) 0 (takeWhile demo_digit str))"

definition demo_position :: SSSpherical where
  "demo_position = \<lparr>lon = Finite 1, lat = Finite (1 / 2), rad = Finite 10\<rparr>"

definition demo_motion :: SSSpherical where
  "demo_motion = \<lparr>lon = Finite 0, lat = Finite 0, rad = Finite (1 / 10000)\<rparr>"

definition demo_ext :: "(SSCatalog \<times> string) externals" where
  "demo_ext =
     \<lparr>ident_null = (kCatOther 0, []),
      ident_valid = (\<lambda>ident. ident \<noteq> (kCatOther 0, [])),
      ident_catalog = fst,
      ident_fromString = demo_fromString,
      ident_fromCatalog = (\<lambda>cat n. (cat, demo_decimal (nat n))),
      compareSSIdentifiers = (\<lambda>a b. demo_rank (fst a) < demo_rank (fst b)),
      strtoint = demo_atoi,
      CNS3_values = (\<lambda>strs. (demo_position, demo_motion, Finite 11, PosInf)),
      AC_values = (\<lambda>strs. (Finite 1, Finite (1 / 2), PosInf, PosInf)),
      HIP_distance = (\<lambda>star. PosInf)\<rparr>"

text \<open>
  A star as a line gives it, with the identifier HD 48915, for the component expander.
\<close>

definition demo_parsed :: "(SSCatalog \<times> string) SSStar" where
  "demo_parsed =
     new_star\<lparr>star_idents := [(kCatHD, ''48915'')],
              star_coords := demo_position, star_motion := demo_motion,
              star_Vmag := Finite 5\<rparr>"

text \<open>
  A CNS3 line of 119 characters for GJ 551, with no component letters; the star that the
  first loop of \<open>SSImportGJCNS3\<close> makes of it (with the values of \<open>demo_ext\<close>, among them the
  radial velocity \<open>1 / 10000\<close>); a reference entry GJ 551 with HIP 70890 and the radial
  velocity \<open>3 / 10000\<close>; and a name table with a name for GJ 551.
\<close>

definition demo_line :: string where
  "demo_line =
     ''GJ551       14 26 19 -62 28.1 3.853  281.5 -16        M5  e '' @
     ''       11.05    1.97                            772.3 2.4  ''"

definition demo_line_star :: "(SSCatalog \<times> string) SSStar" where
  "demo_line_star =
     new_star\<lparr>star_coords := demo_position, star_motion := demo_motion,
              star_Vmag := Finite 11, star_spectrum := ''M5  e''\<rparr>"

definition demo_reference :: "(SSCatalog \<times> string) SSStar" where
  "demo_reference =
     new_star\<lparr>star_idents := [(kCatHIP, ''70890''), (kCatGJ, ''551'')],
              star_coords := \<lparr>lon = Finite 2, lat = Finite (1 / 4), rad = PosInf\<rparr>,
              star_motion := \<lparr>lon = Finite (1 / 100), lat = Finite (1 / 200),
                               rad = Finite (3 / 10000)\<rparr>\<rparr>"

definition demo_names :: "((SSCatalog \<times> string) \<times> string) list" where
  "demo_names = [((kCatGJ, ''551''), ''Proxima Centauri'')]"

text \<open>
  \<open>setVMagnitude\<close> through a pointer: the star at the address gets the magnitude, every
  other object of the heap stays as it is.
\<close>

definition setVMagnitude :: "'id heap \<Rightarrow> nat \<Rightarrow> double \<Rightarrow> 'id heap" where
  "setVMagnitude h p vmag = h[p := Star ((star_at h p)\<lparr>star_Vmag := vmag\<rparr>)]"


section \<open>Properties of the Object Map\<close>

subsection \<open>The build loop\<close>

lemma insert_keeps: "m k = Some v \<Longrightarrow> std_map_insert m k' v' k = Some v"
  by (auto simp: std_map_insert_def split: option.splits)

lemma insert_cases:
  "std_map_insert m k' v' k = Some v \<Longrightarrow> m k = Some v \<or> (k = k' \<and> v = v')"
  by (auto simp: std_map_insert_def split: option.splits if_splits)

lemma loop_keeps:
  "m k = Some v \<Longrightarrow> SSMakeObjectMap_loop getIdentifier valid cat objs i m k = Some v"
  by (induction objs arbitrary: i m) (simp_all add: insert_keeps Let_def split: option.splits)

text \<open>
  An identifier that is not yet in the map gets the slot of the first element that
  carries it.
\<close>

lemma loop_first:
  "j < length objs \<Longrightarrow> objs ! j = Some p \<Longrightarrow> valid (getIdentifier p cat) \<Longrightarrow>
   (\<forall>j'<j. \<forall>p'. objs ! j' = Some p' \<longrightarrow> valid (getIdentifier p' cat) \<longrightarrow>
       getIdentifier p' cat \<noteq> getIdentifier p cat) \<Longrightarrow>
   m (getIdentifier p cat) = None \<Longrightarrow>
   SSMakeObjectMap_loop getIdentifier valid cat objs i m (getIdentifier p cat)
     = Some (i + int j + 1)"
proof (induction objs arbitrary: i m j)
  case Nil
  then show ?case by simp
next
  case (Cons obj rest)
  show ?case
  proof (cases j)
    case 0
    with Cons.prems show ?thesis
      by (simp add: loop_keeps std_map_insert_def)
  next
    case (Suc j')
    have earlier: "\<forall>j''<j'. \<forall>p'. rest ! j'' = Some p' \<longrightarrow> valid (getIdentifier p' cat) \<longrightarrow>
       getIdentifier p' cat \<noteq> getIdentifier p cat"
      using Cons.prems(4) Suc by auto
    have head: "\<And>q. obj = Some q \<Longrightarrow> valid (getIdentifier q cat) \<Longrightarrow>
        getIdentifier q cat \<noteq> getIdentifier p cat"
      using Cons.prems(4) Suc by auto
    have rest: "\<And>m'. m' (getIdentifier p cat) = None \<Longrightarrow>
       SSMakeObjectMap_loop getIdentifier valid cat rest (i + 1) m' (getIdentifier p cat)
         = Some (i + 1 + int j' + 1)"
      using Cons.IH [of j' _ "i + 1"] Cons.prems Suc earlier by simp
    show ?thesis
    proof (cases obj)
      case None
      then show ?thesis using rest [of m] Cons.prems(5) Suc by simp
    next
      case (Some q)
      show ?thesis
      proof (cases "valid (getIdentifier q cat)")
        case False
        then show ?thesis using Some rest [of m] Cons.prems(5) Suc by simp
      next
        case True
        then have "std_map_insert m (getIdentifier q cat) (i + 1) (getIdentifier p cat) = None"
          using head [OF Some True] Cons.prems(5)
          by (simp add: std_map_insert_def split: option.splits)
        then show ?thesis using Some True rest Suc by simp
      qed
    qed
  qed
qed

text \<open>Whatever the loop stores is the slot of an element that carries the key.\<close>

lemma loop_range:
  "SSMakeObjectMap_loop getIdentifier valid cat objs i m k = Some v \<Longrightarrow>
   m k = Some v \<or>
   (\<exists>j p. j < length objs \<and> v = i + int j + 1 \<and> objs ! j = Some p \<and>
      valid (getIdentifier p cat) \<and> getIdentifier p cat = k)"
proof (induction objs arbitrary: i m)
  case Nil
  then show ?case by simp
next
  case (Cons obj rest)
  have step: "\<And>m'. SSMakeObjectMap_loop getIdentifier valid cat rest (i + 1) m' k = Some v \<Longrightarrow>
     m' k = Some v \<or>
     (\<exists>j p. j < length (obj # rest) \<and> v = i + int j + 1 \<and> (obj # rest) ! j = Some p \<and>
        valid (getIdentifier p cat) \<and> getIdentifier p cat = k)"
  proof -
    fix m'
    assume "SSMakeObjectMap_loop getIdentifier valid cat rest (i + 1) m' k = Some v"
    from Cons.IH [OF this] show "m' k = Some v \<or>
     (\<exists>j p. j < length (obj # rest) \<and> v = i + int j + 1 \<and> (obj # rest) ! j = Some p \<and>
        valid (getIdentifier p cat) \<and> getIdentifier p cat = k)"
    proof
      assume "m' k = Some v" then show ?thesis by simp
    next
      assume "\<exists>j p. j < length rest \<and> v = i + 1 + int j + 1 \<and> rest ! j = Some p \<and>
        valid (getIdentifier p cat) \<and> getIdentifier p cat = k"
      then obtain j p where "j < length rest" "v = i + 1 + int j + 1" "rest ! j = Some p"
        "valid (getIdentifier p cat)" "getIdentifier p cat = k" by blast
      then have "Suc j < length (obj # rest) \<and> v = i + int (Suc j) + 1 \<and>
        (obj # rest) ! Suc j = Some p \<and> valid (getIdentifier p cat) \<and> getIdentifier p cat = k"
        by simp
      then show ?thesis by blast
    qed
  qed
  show ?case
  proof (cases obj)
    case None
    with Cons.prems show ?thesis using step [of m] by simp
  next
    case (Some q)
    show ?thesis
    proof (cases "valid (getIdentifier q cat)")
      case False
      with Some Cons.prems show ?thesis using step [of m] by simp
    next
      case True
      with Some Cons.prems
      have "SSMakeObjectMap_loop getIdentifier valid cat rest (i + 1)
              (std_map_insert m (getIdentifier q cat) (i + 1)) k = Some v" by simp
      from step [OF this] show ?thesis
      proof
        assume "std_map_insert m (getIdentifier q cat) (i + 1) k = Some v"
        from insert_cases [OF this] show ?thesis
        proof
          assume "m k = Some v" then show ?thesis by simp
        next
          assume "k = getIdentifier q cat \<and> v = i + 1"
          then have "0 < length (obj # rest) \<and> v = i + int 0 + 1 \<and> (obj # rest) ! 0 = Some q \<and>
            valid (getIdentifier q cat) \<and> getIdentifier q cat = k"
            using Some True by simp
          then show ?thesis by blast
        qed
      next
        assume "\<exists>j p. j < length (obj # rest) \<and> v = i + int j + 1 \<and> (obj # rest) ! j = Some p \<and>
        valid (getIdentifier p cat) \<and> getIdentifier p cat = k"
        then show ?thesis by blast
      qed
    qed
  qed
qed

lemma built_slot:
  assumes "SSMakeObjectMap getIdentifier valid objects cat ident = Some k"
  shows "1 \<le> k \<and> k \<le> int (length objects) \<and> nat (k - 1) < length objects \<and>
     (\<exists>p. objects ! nat (k - 1) = Some p \<and> valid (getIdentifier p cat) \<and>
          getIdentifier p cat = ident)"
proof -
  from loop_range [OF assms [unfolded SSMakeObjectMap_def]]
  obtain j p where "j < length objects" "k = int j + 1" "objects ! j = Some p"
    "valid (getIdentifier p cat)" "getIdentifier p cat = ident" by auto
  then show ?thesis by auto
qed

text \<open>
  On a collection of fewer than \<open>2 ^ 31\<close> elements every stored slot is a value of the
  32-bit \<open>int\<close> of the source.
\<close>

lemma slot_fits_int32:
  "length objects < 2 ^ 31 \<Longrightarrow>
   SSMakeObjectMap getIdentifier valid objects cat ident = Some k \<Longrightarrow> 1 \<le> k \<and> k < 2 ^ 31"
  using built_slot [of getIdentifier valid objects cat ident k] by auto

lemma loop_demo:
  "SSMakeObjectMap demo_getIdentifier demo_valid demo_objects kCatGJ = [1001 \<mapsto> 1]"
  by (simp add: SSMakeObjectMap_def demo_objects_def demo_getIdentifier_def demo_valid_def
      std_map_insert_def)

subsection \<open>Lookup\<close>

lemma fst_lookup:
  "fst (SSIdentifierToObject ident m objects)
     = (case m ident of None \<Rightarrow> Inr None
        | Some k \<Rightarrow> if k > 0 then (if nat (k - 1) < length objects
                                 then Inr (objects ! nat (k - 1)) else Inl OutOfRange)
                     else Inr None)"
  by (simp add: SSIdentifierToObject_def std_map_subscript_def split: option.splits)

lemma snd_lookup:
  "snd (SSIdentifierToObject ident m objects)
     = (case m ident of None \<Rightarrow> m(ident \<mapsto> 0) | Some k \<Rightarrow> m)"
  by (simp add: SSIdentifierToObject_def std_map_subscript_def split: option.splits)

lemma lookup_answer_after_lookup:
  "fst (SSIdentifierToObject ident' (snd (SSIdentifierToObject ident m objects)) objects)
     = fst (SSIdentifierToObject ident' m objects)"
proof (cases "m ident")
  case None
  then show ?thesis by (cases "ident' = ident") (simp_all add: fst_lookup snd_lookup)
next
  case (Some k)
  then show ?thesis by (simp add: snd_lookup)
qed

lemma lookup_answer_after_lookups:
  "fst (SSIdentifierToObject ident' (lookups idents m objects) objects)
     = fst (SSIdentifierToObject ident' m objects)"
  by (induction idents arbitrary: m) (simp_all add: lookup_answer_after_lookup)

subsection \<open>C1: which record wins\<close>

text \<open>
  C1 as the specification states it (last-wins) fails on the code. In the demo
  collection \<open>R1\<close> (slot 1) and \<open>R2\<close> (slot 2) both carry the identifier 1001 under GJ;
  the map built by \<open>SSMakeObjectMap\<close> resolves 1001 to slot 1, not to slot 2, and the
  lookup returns \<open>R1\<close>: \<open>std::map::insert\<close> does not overwrite.
\<close>

theorem SSMakeObjectMap_last_wins_counterexample:
  "SSMakeObjectMap demo_getIdentifier demo_valid demo_objects kCatGJ 1001 = Some 1 \<and>
   SSMakeObjectMap demo_getIdentifier demo_valid demo_objects kCatGJ 1001 \<noteq> Some 2 \<and>
   fst (SSIdentifierToObject 1001
         (SSMakeObjectMap demo_getIdentifier demo_valid demo_objects kCatGJ) demo_objects)
     = Inr (Some ''R1'')"
proof -
  have lookup: "fst (SSIdentifierToObject 1001 [1001 \<mapsto> 1] demo_objects) = Inr (Some ''R1'')"
    by (simp add: SSIdentifierToObject_def std_map_subscript_def demo_objects_def)
  show ?thesis
    by (simp add: loop_demo lookup)
qed

text \<open>
  C1, amended (first-wins): when records \<open>R1\<close> at position \<open>i\<close> and \<open>R2\<close> at a later
  position \<open>j\<close> carry the same valid identifier under the catalog tag, and no record
  before \<open>R1\<close> carries it, the map built by \<open>SSMakeObjectMap\<close> resolves the identifier to
  the slot \<open>i + 1\<close> of \<open>R1\<close>, and \<open>SSIdentifierToObject\<close> returns \<open>R1\<close>.
\<close>

theorem SSMakeObjectMap_first_wins:
  assumes "i < j" and "j < length objects"
    and "objects ! i = Some r1" and "objects ! j = Some r2"
    and "valid (getIdentifier r1 cat)"
    and "getIdentifier r2 cat = getIdentifier r1 cat"
    and "\<forall>i'<i. \<forall>r. objects ! i' = Some r \<longrightarrow> getIdentifier r cat \<noteq> getIdentifier r1 cat"
  shows "SSMakeObjectMap getIdentifier valid objects cat (getIdentifier r1 cat) = Some (int i + 1) \<and>
     fst (SSIdentifierToObject (getIdentifier r1 cat)
           (SSMakeObjectMap getIdentifier valid objects cat) objects) = Inr (Some r1)"
proof -
  have slot: "SSMakeObjectMap getIdentifier valid objects cat (getIdentifier r1 cat) = Some (int i + 1)"
    unfolding SSMakeObjectMap_def
    using loop_first [of i objects r1 valid getIdentifier cat Map.empty 0] assms by simp
  then show ?thesis
    using assms by (simp add: fst_lookup)
qed

text \<open>Witness of C1 amended: the demo collection, with \<open>R1\<close> at 0 and \<open>R2\<close> at 1.\<close>

theorem SSMakeObjectMap_first_wins_witness:
  "SSMakeObjectMap demo_getIdentifier demo_valid demo_objects kCatGJ
       (demo_getIdentifier ''R1'' kCatGJ) = Some (int 0 + 1) \<and>
     fst (SSIdentifierToObject (demo_getIdentifier ''R1'' kCatGJ)
           (SSMakeObjectMap demo_getIdentifier demo_valid demo_objects kCatGJ) demo_objects)
       = Inr (Some ''R1'')"
  using SSMakeObjectMap_first_wins [of 0 1 demo_objects "''R1''" "''R2''" demo_valid
      demo_getIdentifier kCatGJ]
  by (simp add: demo_objects_def demo_getIdentifier_def demo_valid_def)

subsection \<open>C4: what a lookup does to the map\<close>

text \<open>
  C4 as the specification states it (a lookup never modifies the map) fails on the code
  for an identifier that is absent. 2002 is not in the map built from the demo collection;
  after \<open>SSIdentifierToObject\<close> looked it up the map holds 2002 with slot 0, so it is no
  longer the map that was built.
\<close>

theorem SSIdentifierToObject_changes_map_counterexample:
  "SSMakeObjectMap demo_getIdentifier demo_valid demo_objects kCatGJ 2002 = None \<and>
   snd (SSIdentifierToObject 2002
         (SSMakeObjectMap demo_getIdentifier demo_valid demo_objects kCatGJ) demo_objects) 2002
     = Some 0 \<and>
   snd (SSIdentifierToObject 2002
         (SSMakeObjectMap demo_getIdentifier demo_valid demo_objects kCatGJ) demo_objects)
     \<noteq> SSMakeObjectMap demo_getIdentifier demo_valid demo_objects kCatGJ"
proof -
  have absent: "[(1001::nat) \<mapsto> 1::int] 2002 = None" by simp
  have after: "snd (SSIdentifierToObject 2002 [(1001::nat) \<mapsto> 1] demo_objects) 2002 = Some 0"
    by (simp add: snd_lookup)
  have "snd (SSIdentifierToObject 2002 [(1001::nat) \<mapsto> 1] demo_objects) \<noteq> [(1001::nat) \<mapsto> 1]"
  proof
    assume "snd (SSIdentifierToObject 2002 [(1001::nat) \<mapsto> 1] demo_objects) = [(1001::nat) \<mapsto> 1]"
    then have "snd (SSIdentifierToObject 2002 [(1001::nat) \<mapsto> 1] demo_objects) 2002
                 = [(1001::nat) \<mapsto> 1] 2002" by simp
    with after show False by simp
  qed
  with absent after show ?thesis by (simp add: loop_demo)
qed

text \<open>
  C4, amended: a lookup by \<open>SSIdentifierToObject\<close> leaves the map unchanged when the
  identifier is present, and stores the identifier with slot 0, changing no other entry,
  when it is absent; whatever lookups an import run makes on the map, the pointer that a
  lookup of any identifier returns stays the one the map gave when it was built.
\<close>

theorem SSIdentifierToObject_map_effect:
  "snd (SSIdentifierToObject ident m objects)
     = (case m ident of None \<Rightarrow> m(ident \<mapsto> 0) | Some k \<Rightarrow> m) \<and>
   fst (SSIdentifierToObject ident' (lookups idents m objects) objects)
     = fst (SSIdentifierToObject ident' m objects)"
  using snd_lookup [of ident m objects] lookup_answer_after_lookups [of ident' idents m objects]
  by (rule conjI)

subsection \<open>C10: slots stay inside the collection\<close>

text \<open>
  C10: every slot \<open>k\<close> that \<open>SSMakeObjectMap\<close> stores for a collection satisfies
  \<open>1 \<le> k \<le> size\<close>, and \<open>SSIdentifierToObject\<close> over the built map (also after any
  number of earlier lookups on it) returns the element at slot \<open>k\<close>, which is inside
  the collection, for an identifier the build stored, and a null pointer for any other
  identifier: the access \<open>objects[k - 1]\<close> is never out of range.
\<close>

theorem SSMakeObjectMap_slots_in_bounds:
  "(\<forall>ident k. SSMakeObjectMap getIdentifier valid objects cat ident = Some k \<longrightarrow>
      1 \<le> k \<and> k \<le> int (length objects) \<and>
      fst (SSIdentifierToObject ident
            (lookups idents (SSMakeObjectMap getIdentifier valid objects cat) objects) objects)
        = Inr (objects ! nat (k - 1))) \<and>
   (\<forall>ident. SSMakeObjectMap getIdentifier valid objects cat ident = None \<longrightarrow>
      fst (SSIdentifierToObject ident
            (lookups idents (SSMakeObjectMap getIdentifier valid objects cat) objects) objects)
        = Inr None)"
proof (intro conjI allI impI)
  fix ident k
  assume built: "SSMakeObjectMap getIdentifier valid objects cat ident = Some k"
  from built_slot [OF built] show "1 \<le> k" and "k \<le> int (length objects)" by simp_all
  from built_slot [OF built] have "0 < k" and "nat (k - 1) < length objects" by auto
  with built
  have "fst (SSIdentifierToObject ident (SSMakeObjectMap getIdentifier valid objects cat) objects)
        = Inr (objects ! nat (k - 1))"
    by (simp add: fst_lookup)
  then show "fst (SSIdentifierToObject ident
            (lookups idents (SSMakeObjectMap getIdentifier valid objects cat) objects) objects)
        = Inr (objects ! nat (k - 1))"
    by (simp only: lookup_answer_after_lookups)
next
  fix ident
  assume "SSMakeObjectMap getIdentifier valid objects cat ident = None"
  then have "fst (SSIdentifierToObject ident (SSMakeObjectMap getIdentifier valid objects cat) objects)
        = Inr None"
    by (simp add: fst_lookup)
  then show "fst (SSIdentifierToObject ident
            (lookups idents (SSMakeObjectMap getIdentifier valid objects cat) objects) objects)
        = Inr None"
    by (simp only: lookup_answer_after_lookups)
qed

text \<open>
  Witness of C10: in the demo collection 1001 is stored with slot 1 and 2002 is absent;
  after lookups of 2002 and 1001 the lookup of 1001 returns the element at slot 1 and
  the lookup of 2002 a null pointer.
\<close>

theorem SSMakeObjectMap_slots_in_bounds_witness:
  "SSMakeObjectMap demo_getIdentifier demo_valid demo_objects kCatGJ 1001 = Some 1 \<and>
   (1::int) \<le> 1 \<and> 1 \<le> int (length demo_objects) \<and>
   fst (SSIdentifierToObject 1001
         (lookups [2002, 1001] (SSMakeObjectMap demo_getIdentifier demo_valid demo_objects kCatGJ)
            demo_objects) demo_objects) = Inr (demo_objects ! nat (1 - 1)) \<and>
   SSMakeObjectMap demo_getIdentifier demo_valid demo_objects kCatGJ 2002 = None \<and>
   fst (SSIdentifierToObject 2002
         (lookups [2002, 1001] (SSMakeObjectMap demo_getIdentifier demo_valid demo_objects kCatGJ)
            demo_objects) demo_objects) = Inr None"
proof -
  have present: "SSMakeObjectMap demo_getIdentifier demo_valid demo_objects kCatGJ 1001 = Some 1"
    and absent: "SSMakeObjectMap demo_getIdentifier demo_valid demo_objects kCatGJ 2002 = None"
    by (simp_all add: loop_demo)
  from SSMakeObjectMap_slots_in_bounds [of demo_getIdentifier demo_valid demo_objects kCatGJ
      "[2002, 1001]"] present absent
  show ?thesis by blast
qed

section \<open>Properties of the angle parser\<close>

subsection \<open>C5: strtodeg\<close>

lemma demo_scan_example:
  "sscanf_lf3 demo_scan_lf ''10 -30 0'' (0, 0, 0) = (3, 10, - 30, 0)"
  by (simp add: sscanf_lf3_def isspace_def demo_scan_lf_def demo_digit_def)

text \<open>
  C5 as the specification states it (a \<open>-\<close> on any of the three sub-fields negates the
  whole combined value) fails on the code. On \<open>10 -30 0\<close> the three groups are read as
  10, -30 and 0, the sign stands on the minutes, and \<open>strtodeg\<close> returns
  \<open>10 + (-30) / 60 = 9.5\<close>: the combined value is not negated, since only the first
  character of the string is tested for \<open>-\<close>.
\<close>

theorem strtodeg_sign_on_minutes_counterexample:
  "sscanf_lf3 demo_scan_lf (c_str ''10 -30 0'') (0, 0, 0) = (3, 10, - 30, 0) \<and>
   strtodeg demo_scan_lf ''10 -30 0'' = 19 / 2 \<and>
   strtodeg demo_scan_lf ''10 -30 0'' \<noteq> - (\<bar>10\<bar> + (- 30) / 60 + 0 / 3600)"
proof -
  have cstr: "c_str ''10 -30 0'' = ''10 -30 0''" by (simp add: c_str_def)
  have "strtodeg demo_scan_lf ''10 -30 0'' = 19 / 2"
    by (simp add: strtodeg_def cstr demo_scan_example)
  then show ?thesis by (simp add: cstr demo_scan_example)
qed

lemma sscanf_lf3_defaults:
  assumes "sscanf_lf3 scan_lf cstr (deg, minute, sec) = (n, D, M, S)"
  shows "(n < 1 \<longrightarrow> D = deg) \<and> (n < 2 \<longrightarrow> M = minute) \<and> (n < 3 \<longrightarrow> S = sec)"
  using assms by (auto simp: sscanf_lf3_def split: option.splits prod.splits)

text \<open>
  C5, amended: \<open>strtodeg\<close> reads up to three numbers \<open>D\<close>, \<open>M\<close>, \<open>S\<close> in the form
  "degrees [minutes [seconds]]", a group that is missing counting as zero; when the first
  character of the string is \<open>-\<close> the result is \<open>- (|D| + M / 60 + S / 3600)\<close>, otherwise
  it is \<open>|D| + M / 60 + S / 3600\<close>, where \<open>M\<close> and \<open>S\<close> enter with the sign they were
  written with.
\<close>

theorem strtodeg_sign_of_first_character:
  assumes "sscanf_lf3 scan_lf (c_str str) (0, 0, 0) = (n, D, M, S)"
  shows "(n < 1 \<longrightarrow> D = 0) \<and> (n < 2 \<longrightarrow> M = 0) \<and> (n < 3 \<longrightarrow> S = 0) \<and>
     strtodeg scan_lf str =
       (if take 1 (c_str str) = ''-'' then - (\<bar>D\<bar> + M / 60 + S / 3600)
        else \<bar>D\<bar> + M / 60 + S / 3600)"
proof -
  have "strtodeg scan_lf str =
       (if take 1 (c_str str) = ''-'' then - (\<bar>D\<bar> + M / 60 + S / 3600)
        else \<bar>D\<bar> + M / 60 + S / 3600)"
    using assms by (simp add: strtodeg_def)
  with sscanf_lf3_defaults [OF assms] show ?thesis by simp
qed

text \<open>
  Witness of C5 amended: \<open>-10 30\<close> has two groups, the seconds default to zero, and
  the leading \<open>-\<close> negates \<open>10 + 30 / 60\<close>.
\<close>

theorem strtodeg_sign_of_first_character_witness:
  "sscanf_lf3 demo_scan_lf (c_str ''-10 30'') (0, 0, 0) = (2, - 10, 30, 0) \<and>
   strtodeg demo_scan_lf ''-10 30'' = - (\<bar>- 10\<bar> + 30 / 60 + 0 / 3600) \<and>
   strtodeg demo_scan_lf ''-10 30'' = - (21 / 2)"
proof -
  have cstr: "c_str ''-10 30'' = ''-10 30''" by (simp add: c_str_def)
  have scan: "sscanf_lf3 demo_scan_lf (c_str ''-10 30'') (0, 0, 0) = (2, - 10, 30, 0)"
    by (simp add: cstr sscanf_lf3_def isspace_def demo_scan_lf_def demo_digit_def)
  from strtodeg_sign_of_first_character [OF scan] scan show ?thesis
    by (simp add: cstr)
qed

section \<open>Properties of the component expander\<close>

lemma demo_ext_fields:
  "ident_null demo_ext = (kCatOther 0, [])"
  "ident_valid demo_ext ident = (ident \<noteq> (kCatOther 0, []))"
  "ident_catalog demo_ext = fst"
  "ident_fromString demo_ext = demo_fromString"
  "compareSSIdentifiers demo_ext a b = (demo_rank (fst a) < demo_rank (fst b))"
  "CNS3_values demo_ext strs = (demo_position, demo_motion, Finite 11, PosInf)"
  by (simp_all add: demo_ext_def)

text \<open>Sorting and adding keep the identifiers that were there.\<close>

lemma set_insert_sorted: "set (insert_sorted cmp x xs) = insert x (set xs)"
  by (induction xs) auto

lemma set_std_sort: "set (std_sort cmp xs) = set xs"
  by (induction xs) (simp_all add: std_sort_def set_insert_sorted)

lemma set_SSAddIdentifier:
  "set (SSAddIdentifier ext ident ids)
     = (if ident_valid ext ident then insert ident (set ids) else set ids)"
  by (auto simp: SSAddIdentifier_def)

lemma copy_identifiers:
  "set (star_idents (sortIdentifiers ext (addIdentifier ext ident star)))
     = (if ident_valid ext ident then insert ident (set (star_idents star))
        else set (star_idents star))"
  by (simp add: sortIdentifiers_def addIdentifier_def set_std_sort set_SSAddIdentifier)

lemma copy_keeps_fields:
  "(sortIdentifiers ext (addIdentifier ext ident star))\<lparr>star_idents := star_idents star\<rparr> = star"
  by (simp add: sortIdentifiers_def addIdentifier_def)

subsection \<open>What one call and the loop append\<close>

lemma addGJStar_result:
  assumes "pStar < length h" and "h ! pStar = Star star"
  shows "addGJStar ext pStar strGJ strC (h, stars) =
     Inr (h @ [Star (sortIdentifiers ext
                      (addIdentifier ext (ident_fromString ext (''GJ '' @ strGJ @ strC)) star))],
          stars @ [Some (length h)])"
  using assms by (simp add: addGJStar_def)

lemma addGJStar_each_result:
  assumes "pStar < length h" and "h ! pStar = Star star"
  shows "addGJStar_each ext pStar strGJ cs (h, stars) =
     Inr (h @ map (\<lambda>c. Star (sortIdentifiers ext
                      (addIdentifier ext (ident_fromString ext (''GJ '' @ strGJ @ [c])) star))) cs,
          stars @ map Some [length h ..< length h + length cs])"
  using assms
proof (induction cs arbitrary: h stars)
  case Nil
  then show ?case by simp
next
  case (Cons c cs)
  let ?copy = "Star (sortIdentifiers ext
                 (addIdentifier ext (ident_fromString ext (''GJ '' @ strGJ @ [c])) star))"
  have first: "addGJStar ext pStar strGJ [c] (h, stars) = Inr (h @ [?copy], stars @ [Some (length h)])"
    using Cons.prems by (rule addGJStar_result)
  have still: "pStar < length (h @ [?copy])" "(h @ [?copy]) ! pStar = Star star"
    using Cons.prems by (simp_all add: nth_append)
  have range: "[length h ..< length h + length (c # cs)]
      = length h # [length (h @ [?copy]) ..< length (h @ [?copy]) + length cs]"
  proof -
    have "[length h ..< length h + Suc (length cs)]
        = length h # [Suc (length h) ..< length h + Suc (length cs)]"
      by (rule upt_conv_Cons) simp
    then show ?thesis by simp
  qed
  show ?case
    by (simp only: addGJStar_each.simps first sum.case Cons.IH [OF still] range)
       simp
qed

text \<open>The count that \<open>addGJComponentStars\<close> returns and the state after it.\<close>

lemma addGJComponentStars_result:
  assumes "pStar < length h" and "h ! pStar = Star star"
  shows "addGJComponentStars ext pStar strGJ comps (h, stars) =
     Inr (int (if length comps < 2 then 1 else length comps),
          h @ map (\<lambda>strC. Star (sortIdentifiers ext
                     (addIdentifier ext (ident_fromString ext (''GJ '' @ strGJ @ strC)) star)))
                (if length comps < 2 then [comps] else map (\<lambda>c. [c]) comps),
          stars @ map Some
                    [length h ..< length h + (if length comps < 2 then 1 else length comps)])"
proof (cases "length comps < 2")
  case True
  then show ?thesis
    by (simp add: addGJComponentStars_def addGJStar_result [OF assms])
next
  case False
  then show ?thesis
    by (simp add: addGJComponentStars_def addGJStar_each_result [OF assms] comp_def)
qed

text \<open>
  The state after \<open>addGJComponentStars\<close>, in the form the independence of the entries
  needs: the component strings \<open>strs\<close> give one copy each, at consecutive new addresses.
\<close>

lemma addGJComponentStars_state:
  assumes "pStar < length h" and "h ! pStar = Star star"
    and "addGJComponentStars ext pStar strGJ comps (h, stars) = Inr (n, h', stars')"
  shows "\<exists>strs. n = int (length strs) \<and>
     h' = h @ map (\<lambda>strC. Star (sortIdentifiers ext
                     (addIdentifier ext (ident_fromString ext (''GJ '' @ strGJ @ strC)) star))) strs \<and>
     stars' = stars @ map Some [length h ..< length h + length strs]"
proof (cases "length comps < 2")
  case True
  with assms(3) have "n = int (length [comps]) \<and>
     h' = h @ map (\<lambda>strC. Star (sortIdentifiers ext
                     (addIdentifier ext (ident_fromString ext (''GJ '' @ strGJ @ strC)) star))) [comps] \<and>
     stars' = stars @ map Some [length h ..< length h + length [comps]]"
    by (simp add: addGJComponentStars_def addGJStar_result [OF assms(1,2)])
  then show ?thesis by blast
next
  case False
  with assms(3) have "n = int (length (map (\<lambda>c. [c]) comps)) \<and>
     h' = h @ map (\<lambda>strC. Star (sortIdentifiers ext
                     (addIdentifier ext (ident_fromString ext (''GJ '' @ strGJ @ strC)) star)))
                (map (\<lambda>c. [c]) comps) \<and>
     stars' = stars @ map Some [length h ..< length h + length (map (\<lambda>c. [c]) comps)]"
    by (simp add: addGJComponentStars_def addGJStar_each_result [OF assms(1,2)] comp_def)
  then show ?thesis by blast
qed

lemma demo_component_copy:
  "sortIdentifiers demo_ext (addIdentifier demo_ext (demo_fromString (''GJ 1001'' @ [c])) demo_parsed)
     = demo_parsed\<lparr>star_idents := [(kCatHD, ''48915''), (kCatGJ, ''1001'' @ [c])]\<rparr>"
  by (simp add: sortIdentifiers_def addIdentifier_def SSAddIdentifier_def std_sort_def
      demo_ext_fields demo_fromString_def demo_parsed_def new_star_def demo_rank_def)

lemma demo_expansion:
  "addGJComponentStars demo_ext 0 ''1001'' ''AB'' ([Star demo_parsed], []) =
     Inr (2,
          [Star demo_parsed,
           Star (demo_parsed\<lparr>star_idents := [(kCatHD, ''48915''), (kCatGJ, ''1001A'')]\<rparr>),
           Star (demo_parsed\<lparr>star_idents := [(kCatHD, ''48915''), (kCatGJ, ''1001B'')]\<rparr>)],
          [Some 1, Some 2])"
  using addGJStar_each_result [of 0 "[Star demo_parsed]" demo_parsed demo_ext "''1001''" "''AB''" "[]"]
    demo_component_copy [of "CHR ''A''"] demo_component_copy [of "CHR ''B''"]
  by (simp add: addGJComponentStars_def demo_ext_fields upt_conv_Cons)

subsection \<open>C6: the entries and the count\<close>

text \<open>
  C6: for a pointer \<open>pStar\<close> to a star, \<open>addGJComponentStars\<close> with a components string of
  fewer than 2 characters appends exactly one entry, a copy of the star that was given
  the identifier read from \<open>GJ\<close>, the base number and the components string (which may be
  empty), and returns 1; with 2 or more characters it appends exactly one entry per
  character, in order, each a copy that was given the identifier read from \<open>GJ\<close>, the
  base number and that single character, and returns the length of the components
  string. The identifier is added by \<open>addIdentifier\<close> and the identifiers of the copy are
  sorted.
\<close>

theorem addGJComponentStars_entries:
  assumes "pStar < length h" and "h ! pStar = Star star"
  shows "addGJComponentStars ext pStar strGJ comps (h, stars) =
     Inr (int (if length comps < 2 then 1 else length comps),
          h @ map (\<lambda>strC. Star (sortIdentifiers ext
                     (addIdentifier ext (ident_fromString ext (''GJ '' @ strGJ @ strC)) star)))
                (if length comps < 2 then [comps] else map (\<lambda>c. [c]) comps),
          stars @ map Some
                    [length h ..< length h + (if length comps < 2 then 1 else length comps)])"
  using assms by (rule addGJComponentStars_result)

text \<open>
  Witness of C6: base number \<open>1001\<close> and components \<open>AB\<close> give two entries, with the
  identifiers GJ 1001A and GJ 1001B, and the count 2.
\<close>

theorem addGJComponentStars_entries_witness:
  "0 < length [Star demo_parsed] \<and> [Star demo_parsed] ! 0 = Star demo_parsed \<and>
   addGJComponentStars demo_ext 0 ''1001'' ''AB'' ([Star demo_parsed], []) =
     Inr (2,
          [Star demo_parsed,
           Star (demo_parsed\<lparr>star_idents := [(kCatHD, ''48915''), (kCatGJ, ''1001A'')]\<rparr>),
           Star (demo_parsed\<lparr>star_idents := [(kCatHD, ''48915''), (kCatGJ, ''1001B'')]\<rparr>)],
          [Some 1, Some 2])"
  using addGJComponentStars_entries [of 0 "[Star demo_parsed]" demo_parsed demo_ext
      "''1001''" "''AB''" "[]"]
    demo_component_copy [of "CHR ''A''"] demo_component_copy [of "CHR ''B''"]
  by (simp add: demo_ext_fields upt_conv_Cons)

subsection \<open>C8: the entries are independent copies\<close>

text \<open>
  C8: every entry that \<open>addGJComponentStars\<close> (through \<open>addGJStar\<close>) appends points to an
  object at a new address, one that was not in the heap before the call, and that object
  is a copy of the source star: all its fields but the identifiers are those of the
  source. Writing any object to the address of one entry, as the mutation of any of its
  fields does, leaves every object that was in the heap before, the source among them,
  and the object of every sibling entry unchanged.
\<close>

theorem addGJComponentStars_independent:
  assumes "pStar < length h" and "h ! pStar = Star star"
    and "addGJComponentStars ext pStar strGJ comps (h, stars) = Inr (n, h', stars')"
    and "i < nat n"
  shows "\<exists>p s. stars' ! (length stars + i) = Some p \<and> length h \<le> p \<and> p < length h' \<and>
      h' ! p = Star s \<and> s\<lparr>star_idents := star_idents star\<rparr> = star \<and>
      (\<forall>obj. (\<forall>a<length h. (h'[p := obj]) ! a = h ! a) \<and>
         (\<forall>j<nat n. j \<noteq> i \<longrightarrow>
            (\<exists>q. stars' ! (length stars + j) = Some q \<and> q \<noteq> p \<and>
                 (h'[p := obj]) ! q = h' ! q)))"
proof -
  define copy where "copy = (\<lambda>strC. Star (sortIdentifiers ext
      (addIdentifier ext (ident_fromString ext (''GJ '' @ strGJ @ strC)) star)))"
  from addGJComponentStars_state [OF assms(1-3)]
  obtain strs where n: "n = int (length strs)" and h': "h' = h @ map copy strs"
    and stars': "stars' = stars @ map Some [length h ..< length h + length strs]"
    unfolding copy_def by blast
  from assms(4) n have i: "i < length strs" by simp
  have entry: "\<And>k. k < length strs \<Longrightarrow> stars' ! (length stars + k) = Some (length h + k)"
    by (simp add: stars' nth_append)
  have obj: "h' ! (length h + i) = copy (strs ! i)"
    using i by (simp add: h' nth_append)
  have old: "\<And>obj a. a < length h \<Longrightarrow> (h'[length h + i := obj]) ! a = h ! a"
    by (simp add: h' nth_append)
  have "stars' ! (length stars + i) = Some (length h + i) \<and> length h \<le> length h + i \<and>
      length h + i < length h' \<and>
      h' ! (length h + i) = Star (sortIdentifiers ext
        (addIdentifier ext (ident_fromString ext (''GJ '' @ strGJ @ strs ! i)) star)) \<and>
      (sortIdentifiers ext
        (addIdentifier ext (ident_fromString ext (''GJ '' @ strGJ @ strs ! i)) star))
          \<lparr>star_idents := star_idents star\<rparr> = star \<and>
      (\<forall>obj. (\<forall>a<length h. (h'[length h + i := obj]) ! a = h ! a) \<and>
         (\<forall>j<nat n. j \<noteq> i \<longrightarrow>
            (\<exists>q. stars' ! (length stars + j) = Some q \<and> q \<noteq> length h + i \<and>
                 (h'[length h + i := obj]) ! q = h' ! q)))"
    using entry [OF i] i obj old entry n
    by (auto simp: copy_keeps_fields copy_def h')
  then show ?thesis by blast
qed

text \<open>
  Witness of C8: the two entries of base number \<open>1001\<close> with components \<open>AB\<close>. The first
  is at the new address 1 and is a copy of the source; after \<open>setVMagnitude\<close> on it the
  source at 0 and the sibling at 2 are what they were.
\<close>

theorem addGJComponentStars_independent_witness:
  "0 < length [Star demo_parsed] \<and> [Star demo_parsed] ! 0 = Star demo_parsed \<and>
   addGJComponentStars demo_ext 0 ''1001'' ''AB'' ([Star demo_parsed], []) =
     Inr (2,
          [Star demo_parsed,
           Star (demo_parsed\<lparr>star_idents := [(kCatHD, ''48915''), (kCatGJ, ''1001A'')]\<rparr>),
           Star (demo_parsed\<lparr>star_idents := [(kCatHD, ''48915''), (kCatGJ, ''1001B'')]\<rparr>)],
          [Some 1, Some 2]) \<and>
   (0::nat) < nat 2 \<and>
   (\<exists>p s. [Some 1, Some 2] ! (length ([] :: SSObjectVec) + 0) = Some p \<and>
      length [Star demo_parsed] \<le> p \<and>
      [Star demo_parsed,
       Star (demo_parsed\<lparr>star_idents := [(kCatHD, ''48915''), (kCatGJ, ''1001A'')]\<rparr>),
       Star (demo_parsed\<lparr>star_idents := [(kCatHD, ''48915''), (kCatGJ, ''1001B'')]\<rparr>)] ! p
        = Star s \<and>
      s\<lparr>star_idents := star_idents demo_parsed\<rparr> = demo_parsed) \<and>
   setVMagnitude
      [Star demo_parsed,
       Star (demo_parsed\<lparr>star_idents := [(kCatHD, ''48915''), (kCatGJ, ''1001A'')]\<rparr>),
       Star (demo_parsed\<lparr>star_idents := [(kCatHD, ''48915''), (kCatGJ, ''1001B'')]\<rparr>)]
      1 (Finite 7)
    = [Star demo_parsed,
       Star (demo_parsed\<lparr>star_idents := [(kCatHD, ''48915''), (kCatGJ, ''1001A'')],
                          star_Vmag := Finite 7\<rparr>),
       Star (demo_parsed\<lparr>star_idents := [(kCatHD, ''48915''), (kCatGJ, ''1001B'')]\<rparr>)]"
proof -
  let ?h' = "[Star demo_parsed,
       Star (demo_parsed\<lparr>star_idents := [(kCatHD, ''48915''), (kCatGJ, ''1001A'')]\<rparr>),
       Star (demo_parsed\<lparr>star_idents := [(kCatHD, ''48915''), (kCatGJ, ''1001B'')]\<rparr>)]"
  have pre: "0 < length [Star demo_parsed]" "[Star demo_parsed] ! 0 = Star demo_parsed"
    "(0::nat) < nat 2" by simp_all
  from addGJComponentStars_independent [OF pre(1,2) demo_expansion pre(3)]
  have fresh: "\<exists>p s. [Some 1, Some 2] ! (length ([] :: SSObjectVec) + 0) = Some p \<and>
      length [Star demo_parsed] \<le> p \<and> ?h' ! p = Star s \<and>
      s\<lparr>star_idents := star_idents demo_parsed\<rparr> = demo_parsed"
    by blast
  have mutate: "setVMagnitude ?h' 1 (Finite 7)
    = [Star demo_parsed,
       Star (demo_parsed\<lparr>star_idents := [(kCatHD, ''48915''), (kCatGJ, ''1001A'')],
                          star_Vmag := Finite 7\<rparr>),
       ?h' ! 2]"
    by (simp add: setVMagnitude_def star_at_def)
  from pre demo_expansion fresh mutate show ?thesis by simp
qed

section \<open>Properties of the importers\<close>

subsection \<open>C9: a file that cannot be opened\<close>

text \<open>
  C9: when the input file cannot be opened, \<open>SSImportGJCNS3\<close> and \<open>SSImportGJAC\<close> return
  the count 0 and leave the heap and the output collection as they were; the result is
  a return value, not an error.
\<close>

theorem import_of_unopened_file:
  "SSImportGJCNS3 ext None nameMap gjACStars (h, stars) = Inr (0, h, stars) \<and>
   SSImportGJAC ext None hipStars (h, stars) = Inr (0, h, stars)"
  by (simp add: SSImportGJCNS3_def SSImportGJAC_def)

subsection \<open>The count of a line\<close>

text \<open>
  A line of at least 119 characters with a right ascension and a declination adds to
  \<open>numStars\<close>, and to \<open>stars\<close>, exactly the component-expansion count of its components
  field; a shorter line adds nothing.
\<close>

lemma SSImportGJCNS3_line_expands:
  assumes "119 \<le> length line"
    and "trim (substr line 12 8) \<noteq> []" and "trim (substr line 21 8) \<noteq> []"
  shows "\<exists>star. SSImportGJCNS3_line ext line (h, stars) =
     addGJComponentStars ext (length h) (trim (substr line 2 6)) (trim (substr line 8 2))
       (h @ [Star star], stars)"
  using assms
  by (simp add: SSImportGJCNS3_line_def Let_def split_beta split del: if_split)
     (rule exI, rule refl)

lemma SSImportGJCNS3_line_count:
  assumes "119 \<le> length line"
    and "trim (substr line 12 8) \<noteq> []" and "trim (substr line 21 8) \<noteq> []"
  shows "\<exists>h' stars'. SSImportGJCNS3_line ext line (h, stars) =
       Inr (int (if length (trim (substr line 8 2)) < 2 then 1
                 else length (trim (substr line 8 2))), h', stars') \<and>
     length stars' = length stars +
       (if length (trim (substr line 8 2)) < 2 then 1 else length (trim (substr line 8 2)))"
proof -
  from SSImportGJCNS3_line_expands [OF assms]
  obtain star where line: "SSImportGJCNS3_line ext line (h, stars) =
     addGJComponentStars ext (length h) (trim (substr line 2 6)) (trim (substr line 8 2))
       (h @ [Star star], stars)" by blast
  have "length h < length (h @ [Star star])" "(h @ [Star star]) ! length h = Star star"
    by simp_all
  from addGJComponentStars_result [OF this, of ext "trim (substr line 2 6)"
      "trim (substr line 8 2)" stars]
  show ?thesis
    unfolding line by (cases "length (trim (substr line 8 2)) < 2") auto
qed

lemma SSImportGJCNS3_line_skipped:
  "length line < 119 \<Longrightarrow> SSImportGJCNS3_line ext line st = Inr (0, st)"
  by (simp add: SSImportGJCNS3_line_def)

subsection \<open>The demo line\<close>

lemma demo_line_fields:
  "length demo_line = 119"
  "trim (substr demo_line 2 6) = ''551''"
  "trim (substr demo_line 8 2) = []"
  "trim (substr demo_line 12 8) = ''14 26 19''"
  "trim (substr demo_line 21 8) = ''-62 28.1''"
  "trim (substr demo_line 54 12) = ''M5  e''"
  by (simp_all add: demo_line_def trim_def find_last_not_of_def substr_def)

lemma demo_line_import:
  "SSImportGJCNS3_line demo_ext demo_line (h, stars) =
     addGJComponentStars demo_ext (length h) ''551'' [] (h @ [Star demo_line_star], stars)"
  by (simp add: SSImportGJCNS3_line_def demo_line_fields demo_ext_fields Let_def
      demo_line_star_def new_star_def)

lemma demo_line_entry:
  "sortIdentifiers demo_ext (addIdentifier demo_ext (demo_fromString ''GJ 551'') demo_line_star)
     = demo_line_star\<lparr>star_idents := [(kCatGJ, ''551'')]\<rparr>"
  by (simp add: sortIdentifiers_def addIdentifier_def SSAddIdentifier_def std_sort_def
      demo_ext_fields demo_fromString_def demo_line_star_def new_star_def)

lemma demo_lines_import:
  "SSImportGJCNS3_lines demo_ext [demo_line] 0 (h, stars) =
     Inr (1, h @ [Star demo_line_star, Star (demo_line_star\<lparr>star_idents := [(kCatGJ, ''551'')]\<rparr>)],
          stars @ [Some (Suc (length h))])"
  by (simp add: demo_line_import addGJComponentStars_def addGJStar_def nth_append
      demo_ext_fields demo_line_entry)

subsection \<open>C2: the radial velocity in the merge\<close>

text \<open>
  What the body of the second loop does to the radial velocity of an entry whose
  cross-match succeeded: the entry keeps its own value only when the value of the
  reference entry is infinite.
\<close>

lemma crossmatch_star_radial_velocity:
  assumes "SSIdentifierToObject (star_getIdentifier ext (star_at h pStar) kCatGJ) m gjACStars
             = (Inr (Some pACStar), m')"
    and "h ! pACStar = Star acStar" and "pStar < length h"
  shows "\<exists>h'. SSImportGJCNS3_crossmatch_star ext nameMap gjACStars pStar (h, m) = Inr (h', m') \<and>
     rad (star_motion (star_at h' pStar)) =
       (if isinf (rad (star_motion acStar)) then rad (star_motion (star_at h pStar))
        else rad (star_motion acStar))"
  using assms
  by (simp add: SSImportGJCNS3_crossmatch_star_def SSGetStarPtr_def Let_def star_at_def)

lemma demo_reference_map:
  "SSMakeObjectMap
     (\<lambda>p. SSObject_getIdentifier demo_ext
            ([Star demo_reference, Star demo_line_star,
              Star (demo_line_star\<lparr>star_idents := [(kCatGJ, ''551'')]\<rparr>)] ! p))
     (ident_valid demo_ext) [Some 0] kCatGJ
   = [(kCatGJ, ''551'') \<mapsto> 1]"
  by (simp add: SSMakeObjectMap_def SSObject_getIdentifier_def star_getIdentifier_def
      demo_ext_fields demo_reference_def new_star_def std_map_insert_def)

lemma demo_lookup:
  "SSIdentifierToObject (kCatGJ, ''551'') [(kCatGJ, ''551'') \<mapsto> 1] [Some 0]
     = (Inr (Some 0), [(kCatGJ, ''551'') \<mapsto> 1])"
  by (simp add: SSIdentifierToObject_def std_map_subscript_def)

lemma demo_crossmatch_star:
  "SSImportGJCNS3_crossmatch_star demo_ext demo_names [Some 0] 2
     ([Star demo_reference, Star demo_line_star,
       Star (demo_line_star\<lparr>star_idents := [(kCatGJ, ''551'')]\<rparr>)],
      [(kCatGJ, ''551'') \<mapsto> 1])
   = Inr ([Star demo_reference, Star demo_line_star,
           Star (demo_line_star
             \<lparr>star_names := [''Proxima Centauri''],
              star_idents := [(kCatHIP, ''70890''), (kCatGJ, ''551'')],
              star_coords := \<lparr>lon = Finite 2, lat = Finite (1 / 4), rad = Finite 10\<rparr>,
              star_motion := \<lparr>lon = Finite (1 / 100), lat = Finite (1 / 200),
                               rad = Finite (3 / 10000)\<rparr>\<rparr>)],
          [(kCatGJ, ''551'') \<mapsto> 1])"
  by (simp add: SSImportGJCNS3_crossmatch_star_def star_at_def star_getIdentifier_def
      demo_ext_fields demo_lookup SSGetStarPtr_def Let_def SSAddIdentifier_def std_sort_def
      demo_rank_def SSIdentifiersToNames_def demo_names_def isinf_def
      demo_reference_def demo_line_star_def new_star_def demo_position_def demo_motion_def)

text \<open>
  C2 fails on the code. The file holds the demo line for GJ 551, whose radial velocity is
  \<open>1 / 10000\<close>, and the reference collection holds GJ 551 with the radial velocity
  \<open>3 / 10000\<close>. The cross-match succeeds, and the entry that \<open>SSImportGJCNS3\<close> leaves in
  \<open>stars\<close> has the radial velocity \<open>3 / 10000\<close> of the reference entry, not its own.
\<close>

theorem crossmatch_overwrites_radial_velocity:
  "SSImportGJCNS3 demo_ext (Some [demo_line]) demo_names [Some 0] ([Star demo_reference], [])
     = Inr (1,
            [Star demo_reference, Star demo_line_star,
             Star (demo_line_star
               \<lparr>star_names := [''Proxima Centauri''],
                star_idents := [(kCatHIP, ''70890''), (kCatGJ, ''551'')],
                star_coords := \<lparr>lon = Finite 2, lat = Finite (1 / 4), rad = Finite 10\<rparr>,
                star_motion := \<lparr>lon = Finite (1 / 100), lat = Finite (1 / 200),
                                 rad = Finite (3 / 10000)\<rparr>\<rparr>)],
            [Some 2]) \<and>
   rad (star_motion demo_line_star) = Finite (1 / 10000) \<and>
   rad (star_motion demo_reference) = Finite (3 / 10000)"
proof -
  have lines: "SSImportGJCNS3_lines demo_ext [demo_line] 0 ([Star demo_reference], [])
     = Inr (1, [Star demo_reference, Star demo_line_star,
                Star (demo_line_star\<lparr>star_idents := [(kCatGJ, ''551'')]\<rparr>)], [Some 2])"
    using demo_lines_import [of "[Star demo_reference]" "[]"] by simp
  have vectors: "live [Star demo_reference] []" "live [Star demo_reference] [Some 0]"
    by (simp_all add: live_def)
  have import: "SSImportGJCNS3 demo_ext (Some [demo_line]) demo_names [Some 0]
       ([Star demo_reference], [])
     = Inr (1,
            [Star demo_reference, Star demo_line_star,
             Star (demo_line_star
               \<lparr>star_names := [''Proxima Centauri''],
                star_idents := [(kCatHIP, ''70890''), (kCatGJ, ''551'')],
                star_coords := \<lparr>lon = Finite 2, lat = Finite (1 / 4), rad = Finite 10\<rparr>,
                star_motion := \<lparr>lon = Finite (1 / 100), lat = Finite (1 / 200),
                                 rad = Finite (3 / 10000)\<rparr>\<rparr>)],
            [Some 2])"
    by (simp add: SSImportGJCNS3_def vectors lines demo_reference_map SSGetStarPtr_def
        demo_crossmatch_star del: SSImportGJCNS3_lines.simps)
  have velocities: "rad (star_motion demo_line_star) = Finite (1 / 10000)"
    "rad (star_motion demo_reference) = Finite (3 / 10000)"
    by (simp_all add: demo_line_star_def demo_reference_def demo_motion_def)
  from import velocities show ?thesis by (intro conjI)
qed

subsection \<open>C3: the names of an entry\<close>

text \<open>
  What the body of the second loop does to an entry whose cross-match failed: the
  identifiers handed to \<open>SSIdentifiersToNames\<close> are the empty vector, no name is found
  and the entry stays as it was, whatever the name table holds.
\<close>

lemma no_names_for_no_identifiers: "SSIdentifiersToNames [] nameMap = []"
  by (simp add: SSIdentifiersToNames_def)

lemma crossmatch_star_unmatched:
  assumes "SSIdentifierToObject (star_getIdentifier ext (star_at h pStar) kCatGJ) m gjACStars
             = (Inr ptr, m')"
    and "SSGetStarPtr h ptr = None"
  shows "SSImportGJCNS3_crossmatch_star ext nameMap gjACStars pStar (h, m) = Inr (h, m')"
  using assms
  by (simp add: SSImportGJCNS3_crossmatch_star_def no_names_for_no_identifiers)

lemma empty_collection_map:
  "SSMakeObjectMap getIdentifier valid [] cat = Map.empty"
  by (simp add: SSMakeObjectMap_def)

lemma demo_crossmatch_unmatched:
  "SSImportGJCNS3_crossmatch_star demo_ext demo_names [] (Suc 0)
     ([Star demo_line_star, Star (demo_line_star\<lparr>star_idents := [(kCatGJ, ''551'')]\<rparr>)],
      Map.empty)
   = Inr ([Star demo_line_star, Star (demo_line_star\<lparr>star_idents := [(kCatGJ, ''551'')]\<rparr>)],
          [(kCatGJ, ''551'') \<mapsto> 0])"
  by (simp add: SSImportGJCNS3_crossmatch_star_def star_at_def star_getIdentifier_def
      demo_ext_fields SSIdentifierToObject_def std_map_subscript_def SSGetStarPtr_def Let_def
      SSIdentifiersToNames_def)

text \<open>
  C3 fails on the code for an entry whose cross-match did not succeed. The file holds the
  demo line for GJ 551, the reference collection is empty and the name table has the name
  Proxima Centauri for GJ 551. The entry that \<open>SSImportGJCNS3\<close> leaves in \<open>stars\<close> has the
  identifier GJ 551 and no name, although the name table gives a name for its
  identifier set.
\<close>

theorem unmatched_entry_gets_no_names:
  "SSImportGJCNS3 demo_ext (Some [demo_line]) demo_names [] ([], [])
     = Inr (1, [Star demo_line_star, Star (demo_line_star\<lparr>star_idents := [(kCatGJ, ''551'')]\<rparr>)],
            [Some 1]) \<and>
   star_names (demo_line_star\<lparr>star_idents := [(kCatGJ, ''551'')]\<rparr>) = [] \<and>
   SSIdentifiersToNames (star_idents (demo_line_star\<lparr>star_idents := [(kCatGJ, ''551'')]\<rparr>))
       demo_names = [''Proxima Centauri'']"
proof -
  have lines: "SSImportGJCNS3_lines demo_ext [demo_line] 0 ([], [])
     = Inr (1, [Star demo_line_star, Star (demo_line_star\<lparr>star_idents := [(kCatGJ, ''551'')]\<rparr>)],
            [Some 1])"
    using demo_lines_import [of "[]" "[]"] by simp
  have vectors: "live ([] :: (SSCatalog \<times> string) heap) []"
    by (simp add: live_def)
  have import: "SSImportGJCNS3 demo_ext (Some [demo_line]) demo_names [] ([], [])
     = Inr (1, [Star demo_line_star, Star (demo_line_star\<lparr>star_idents := [(kCatGJ, ''551'')]\<rparr>)],
            [Some 1])"
    by (simp add: SSImportGJCNS3_def vectors lines empty_collection_map SSGetStarPtr_def
        demo_crossmatch_unmatched del: SSImportGJCNS3_lines.simps)
  have names: "star_names (demo_line_star\<lparr>star_idents := [(kCatGJ, ''551'')]\<rparr>) = []"
    "SSIdentifiersToNames (star_idents (demo_line_star\<lparr>star_idents := [(kCatGJ, ''551'')]\<rparr>))
       demo_names = [''Proxima Centauri'']"
    by (simp_all add: SSIdentifiersToNames_def demo_names_def demo_line_star_def new_star_def)
  from import names show ?thesis by (intro conjI)
qed

end
